theory Spec2Isabelle
  imports Complex_Main
begin

section \<open>Python strings\<close>

text \<open>
  A Python \<open>str\<close> is a sequence of code points. It is modelled as a \<open>string\<close> whose
  characters are the code points below 256 (the Latin-1 range); every literal and
  character class of the source lies in that range, except the en dash of one title
  pattern, which no string of the model can contain.
\<close>

definition is_space :: "char \<Rightarrow> bool" where
  \<comment> \<open>\<open>str.isspace\<close>, also the class \<open>\s\<close> of \<open>re\<close> and what \<open>str.strip()\<close> removes\<close>
  "is_space c = (let n = (of_char c :: nat) in
     (9 \<le> n \<and> n \<le> 13) \<or> (28 \<le> n \<and> n \<le> 32) \<or> n = 133 \<or> n = 160)"

definition lower_char :: "char \<Rightarrow> char" where
  \<comment> \<open>\<open>str.lower\<close> on one code point: A-Z, and \<open>0xC0\<close>-\<open>0xDE\<close> without the multiplication sign\<close>
  "lower_char c = (let n = (of_char c :: nat) in
     if (65 \<le> n \<and> n \<le> 90) \<or> (192 \<le> n \<and> n \<le> 222 \<and> n \<noteq> 215)
     then char_of (n + 32) else c)"

definition lower :: "string \<Rightarrow> string" where
  "lower s = map lower_char s"

definition lstrip :: "string \<Rightarrow> string" where
  "lstrip s = dropWhile is_space s"

definition rstrip :: "string \<Rightarrow> string" where
  "rstrip s = rev (dropWhile is_space (rev s))"

definition strip :: "string \<Rightarrow> string" where
  "strip s = rstrip (lstrip s)"

section \<open>Cells\<close>

text \<open>
  A raw cell of a grid. The data model names null, numbers and strings; Python's \<open>bool\<close>
  is an \<open>int\<close> that prints differently, and NaN is the float (or \<open>NaT\<close>) that differs
  from itself. A finite float is given by its value and by the text \<open>str()\<close> prints for
  it, the only two things the source reads from it; infinite floats are not modelled.
  \<open>PyObj\<close> is any other object (a datetime, say), given by what \<open>str()\<close> prints.
\<close>

datatype cell =
    PyNone
  | PyNaN
  | PyStr string
  | PyInt int
  | PyBool bool
  | PyFloat rat string
  | PyObj string

definition is_nan :: "cell \<Rightarrow> bool" where
  "is_nan v = (v = PyNaN)"

fun normalize_cell :: "cell \<Rightarrow> cell" where
  "normalize_cell PyNone = PyNone"
| "normalize_cell PyNaN = PyNone"
| "normalize_cell (PyStr v) =
     (let s = strip v in
      if s = [] then PyNone
      else if lower s = ''nan'' then PyNone
      else if s = ''#DIV/0!'' then PyStr ''0''
      else if s = ''-'' then PyNone
      else PyStr s)"
| "normalize_cell (PyInt i) = PyInt i"
| "normalize_cell (PyBool b) = PyBool b"
| "normalize_cell (PyFloat x r) = PyFloat x r"
| "normalize_cell (PyObj r) = (let s = strip r in if s = [] then PyNone else PyStr s)"


fun in_data_model :: "cell \<Rightarrow> bool" where
  \<comment> \<open>the raw cell values of the data model: null, numeric, string\<close>
  "in_data_model (PyObj r) = False"
| "in_data_model v = True"

section \<open>Facts about strings\<close>

lemma lstrip_idem: "lstrip (lstrip s) = lstrip s"
  by (simp add: lstrip_def)

lemma rstrip_idem: "rstrip (rstrip s) = rstrip s"
  by (simp add: rstrip_def)

lemma hd_lstrip: "lstrip s \<noteq> [] \<Longrightarrow> \<not> is_space (hd (lstrip s))"
  unfolding lstrip_def by (rule hd_dropWhile)

lemma lstrip_rstrip_lstrip: "lstrip (rstrip (lstrip s)) = rstrip (lstrip s)"
proof (cases "rstrip (lstrip s) = []")
  case True
  then show ?thesis by (simp add: lstrip_def)
next
  case False
  let ?t = "lstrip s"
  have ne: "?t \<noteq> []" using False by (auto simp: rstrip_def)
  have "rstrip ?t = take (length (rstrip ?t)) ?t"
    by (simp add: rstrip_def rev_take [symmetric] dropWhile_eq_drop flip: rev_drop)
      (metis dropWhile_eq_drop length_rev rev_drop rev_rev_ident)
  then have "hd (rstrip ?t) = hd ?t"
    using False by (metis hd_take length_greater_0_conv)
  then have "\<not> is_space (hd (rstrip ?t))"
    using hd_lstrip [OF ne] by simp
  then show ?thesis
    using False by (cases "rstrip ?t") (auto simp: lstrip_def)
qed

lemma strip_idem: "strip (strip s) = strip s"
  by (simp add: strip_def lstrip_rstrip_lstrip rstrip_idem)

section \<open>Cell normalization\<close>


lemmas str_eval = strip_def lstrip_def rstrip_def is_space_def lower_def lower_char_def
  char_of_def bit_Suc_0_iff



text \<open>
  Claim C8: normalization is idempotent on every raw cell value of the data model (null,
  NaN, numbers, strings), the special tokens \<open>#DIV/0!\<close> and \<open>-\<close> included; it is a total
  function, defined by cases on the value.
\<close>

lemma strip_zero: "strip ''0'' = ''0''"
  by (simp add: strip_def lstrip_def rstrip_def is_space_def)

lemma normalize_cell_PyStr_idem:
  "normalize_cell (normalize_cell (PyStr s)) = normalize_cell (PyStr s)"
proof -
  let ?t = "strip s"
  consider "?t = []" | "?t \<noteq> []" "lower ?t = ''nan''"
    | "?t \<noteq> []" "lower ?t \<noteq> ''nan''" "?t = ''#DIV/0!''"
    | "?t \<noteq> []" "lower ?t \<noteq> ''nan''" "?t \<noteq> ''#DIV/0!''" "?t = ''-''"
    | "?t \<noteq> []" "lower ?t \<noteq> ''nan''" "?t \<noteq> ''#DIV/0!''" "?t \<noteq> ''-''"
    by blast
  then show ?thesis
  proof cases
    case 3
    then have "normalize_cell (PyStr s) = PyStr ''0''" by (simp add: Let_def)
    then show ?thesis by (simp add: strip_zero lower_def lower_char_def)
  next
    case 5
    then have "normalize_cell (PyStr s) = PyStr ?t" by (simp add: Let_def)
    then show ?thesis using 5 by (simp add: strip_idem Let_def)
  qed (simp_all add: Let_def)
qed

theorem normalize_cell_idempotent:
  "in_data_model x \<Longrightarrow> normalize_cell (normalize_cell x) = normalize_cell x"
  by (cases x) (simp_all add: normalize_cell_PyStr_idem del: normalize_cell.simps(3))

theorem normalize_cell_idempotent_witness:
  "in_data_model (PyStr '' #DIV/0! '')
   \<and> normalize_cell (normalize_cell (PyStr '' #DIV/0! '')) = PyStr ''0''"
  using normalize_cell_idempotent [of "PyStr '' #DIV/0! ''"]
  by (simp add: str_eval)

section \<open>Pre-Cleaner: the column pass\<close>
















section \<open>Header construction\<close>

function str_nat :: "nat \<Rightarrow> string" where
  "str_nat n = (if n < 10 then [''0123456789'' ! n]
                else str_nat (n div 10) @ [''0123456789'' ! (n mod 10)])"
  by pat_completeness auto
termination
  by (relation "measure id") auto

declare str_nat.simps [simp del]

definition str_int :: "int \<Rightarrow> string" where
  "str_int i = (if i < 0 then ''-'' @ str_nat (nat (- i)) else str_nat (nat i))"

fun py_str :: "cell \<Rightarrow> string" where
  \<comment> \<open>\<open>str(value)\<close>\<close>
  "py_str PyNone = ''None''"
| "py_str PyNaN = ''nan''"
| "py_str (PyStr s) = s"
| "py_str (PyInt i) = str_int i"
| "py_str (PyBool b) = (if b then ''True'' else ''False'')"
| "py_str (PyFloat x r) = r"
| "py_str (PyObj r) = r"

fun join :: "string \<Rightarrow> string list \<Rightarrow> string" where
  \<comment> \<open>\<open>sep.join(parts)\<close>\<close>
  "join sep [] = []"
| "join sep [x] = x"
| "join sep (x # y # ys) = x @ sep @ join sep (y # ys)"

fun fromkeys :: "'a list \<Rightarrow> 'a list \<Rightarrow> 'a list" where
  \<comment> \<open>the keys of \<open>dict.fromkeys(parts)\<close> in insertion order, after the keys \<open>seen\<close>\<close>
  "fromkeys seen [] = []"
| "fromkeys seen (x # xs) =
     (if x \<in> set seen then fromkeys seen xs else x # fromkeys (seen @ [x]) xs)"

function sub_runs :: "(char \<Rightarrow> bool) \<Rightarrow> string \<Rightarrow> string \<Rightarrow> string" where
  \<comment> \<open>\<open>re.sub('[...]+', repl, s)\<close>: every maximal run of the class becomes \<open>repl\<close>\<close>
  "sub_runs P repl [] = []"
| "sub_runs P repl (c # cs) =
     (if P c then repl @ sub_runs P repl (dropWhile P cs) else c # sub_runs P repl cs)"
  by pat_completeness auto
termination
  by (relation "measure (\<lambda>(P, repl, s). length s)") (auto simp: length_dropWhile_le less_Suc_eq_le)

fun propagate_from :: "cell \<Rightarrow> cell list \<Rightarrow> cell list" where
  \<comment> \<open>the loop of \<open>_propagate_merged_header\<close>, from the current \<open>last_value\<close>\<close>
  "propagate_from last_value [] = []"
| "propagate_from last_value (v # vs) =
     (if normalize_cell v \<noteq> PyNone then v # propagate_from v vs
      else if last_value \<noteq> PyNone then last_value # propagate_from last_value vs
      else v # propagate_from last_value vs)"

definition propagate_merged_header :: "cell list \<Rightarrow> cell list" where
  "propagate_merged_header row = propagate_from PyNone row"

definition cell_at :: "cell list \<Rightarrow> nat \<Rightarrow> cell" where
  \<comment> \<open>\<open>row[c] if c < len(row) else None\<close>\<close>
  "cell_at row c = (if c < length row then row ! c else PyNone)"

definition row_at :: "cell list list \<Rightarrow> nat \<Rightarrow> cell list" where
  \<comment> \<open>\<open>grid[r] if r < len(grid) else []\<close>\<close>
  "row_at grid r = (if r < length grid then grid ! r else [])"

definition header_name :: "cell list \<Rightarrow> cell list \<Rightarrow> cell list \<Rightarrow> nat \<Rightarrow> string" where
  \<comment> \<open>the body of the first loop of \<open>build_header\<close>, for column \<open>c\<close>\<close>
  "header_name row0 row1 row2 c =
     (let a = normalize_cell (cell_at row0 c);
          b = normalize_cell (cell_at row1 c);
          d = normalize_cell (cell_at row2 c);
          parts = [a, b, d];
          parts = map (\<lambda>x. strip (py_str x)) (filter (\<lambda>x. x \<noteq> PyNone \<and> strip (py_str x) \<noteq> []) parts)
      in join '' '' (fromkeys [] parts))"

definition clean_base :: "nat \<Rightarrow> string \<Rightarrow> string" where
  \<comment> \<open>the name of column \<open>idx\<close> before disambiguation\<close>
  "clean_base idx h =
     (let base = (if h \<noteq> [] \<and> strip h \<noteq> [] then strip h else ''col_'' @ str_nat (idx + 1));
          base = sub_runs (\<lambda>c. c \<in> set [CHR 0x0A, CHR 0x0D, CHR 0x09]) '' '' base;
          base = strip (sub_runs is_space '' '' base)
      in base)"

fun unique_names :: "(string \<rightharpoonup> nat) \<Rightarrow> nat \<Rightarrow> string list \<Rightarrow> string list" where
  \<comment> \<open>the second loop of \<open>build_header\<close>, from the dictionary \<open>seen\<close> and the index \<open>idx\<close>\<close>
  "unique_names seen idx [] = []"
| "unique_names seen idx (h # hs) =
     (let base = clean_base idx h;
          key = lower base;
          n = (case seen key of None \<Rightarrow> 0 | Some k \<Rightarrow> k) + 1;
          seen = seen(key \<mapsto> n)
      in (if n = 1 then base else base @ ''_'' @ str_nat n) # unique_names seen (idx + 1) hs)"

definition build_header :: "cell list list \<Rightarrow> nat \<Rightarrow> nat \<Rightarrow> string list" where
  "build_header grid header_row_index header_span =
     (let row0 = propagate_merged_header (row_at grid header_row_index);
          row1 = propagate_merged_header
                   (if header_span \<ge> 2 then row_at grid (header_row_index + 1) else []);
          row2 = propagate_merged_header
                   (if header_span \<ge> 3 then row_at grid (header_row_index + 2) else []);
          max_cols = max (max (length row0) (length row1)) (length row2);
          headers = map (header_name row0 row1 row2) [0 ..< max_cols]
      in unique_names Map.empty 0 headers)"


definition grid_clash :: "cell list list" where
  "grid_clash = [[PyStr ''a'', PyStr ''a'', PyStr ''a_2'']]"

section \<open>Facts about header construction\<close>






text \<open>
  Claim C2 fails on the code: a header that already carries a name of the form
  \<open>base_2\<close> collides with the suffix given to a duplicate of \<open>base\<close>. The header row
  \<open>a\<close>, \<open>a\<close>, \<open>a_2\<close> gives the names \<open>a\<close>, \<open>a_2\<close>, \<open>a_2\<close>.
\<close>

theorem build_header_clash:
  "build_header grid_clash 0 1 = [''a'', ''a_2'', ''a_2'']
   \<and> \<not> distinct (build_header grid_clash 0 1)"
  by code_simp

section \<open>Regular expressions\<close>

text \<open>
  The patterns of the source use literals, character classes, bounded and unbounded
  repetition of a class, groups with alternatives, an optional group, the anchors
  \<open>^\<close> and \<open>$\<close> and the word boundary \<open>\b\<close>. A position in the subject is the
  character before it (none at the start) and the rest of the subject; the matcher
  returns the positions at which a match of the pattern can end.
\<close>

datatype regex =
    Lit string
  | Cls "char \<Rightarrow> bool"
  | Rep "char \<Rightarrow> bool" nat "nat option"
  | Seq regex regex
  | Alt regex regex
  | Opt regex
  | Bol
  | Eol
  | WordB


definition is_word :: "char \<Rightarrow> bool" where
  \<comment> \<open>the class \<open>\w\<close>: \<open>str.isalnum\<close> or the underscore\<close>
  "is_word c = (let n = (of_char c :: nat) in
     (48 \<le> n \<and> n \<le> 57) \<or> (65 \<le> n \<and> n \<le> 90) \<or> n = 95 \<or> (97 \<le> n \<and> n \<le> 122)
     \<or> n = 170 \<or> n = 178 \<or> n = 179 \<or> n = 181 \<or> n = 185 \<or> n = 186
     \<or> (188 \<le> n \<and> n \<le> 190) \<or> (192 \<le> n \<and> n \<le> 214) \<or> (216 \<le> n \<and> n \<le> 246)
     \<or> 248 \<le> n)"

definition upper_char :: "char \<Rightarrow> char" where
  \<comment> \<open>\<open>str.upper\<close> on one code point, where the result is one code point below 256\<close>
  "upper_char c = (let n = (of_char c :: nat) in
     if (97 \<le> n \<and> n \<le> 122) \<or> (224 \<le> n \<and> n \<le> 254 \<and> n \<noteq> 247)
     then char_of (n - 32) else c)"

definition lit_ok :: "bool \<Rightarrow> char \<Rightarrow> char \<Rightarrow> bool" where
  \<comment> \<open>a literal of the pattern against a character, under \<open>re.I\<close> when \<open>ci\<close>\<close>
  "lit_ok ci c d = (if ci then lower_char c = lower_char d else c = d)"

definition cls_ok :: "bool \<Rightarrow> (char \<Rightarrow> bool) \<Rightarrow> char \<Rightarrow> bool" where
  \<comment> \<open>a class of the pattern against a character, under \<open>re.I\<close> when \<open>ci\<close>\<close>
  "cls_ok ci P d = (if ci then P (lower_char d) \<or> P (upper_char (lower_char d)) else P d)"

fun match_lit :: "bool \<Rightarrow> string \<Rightarrow> char option \<Rightarrow> string \<Rightarrow> (char option \<times> string) list" where
  "match_lit ci [] prev rest = [(prev, rest)]"
| "match_lit ci (c # cs) prev [] = []"
| "match_lit ci (c # cs) prev (d # ds) =
     (if lit_ok ci c d then match_lit ci cs (Some d) ds else [])"

fun match_rep :: "bool \<Rightarrow> (char \<Rightarrow> bool) \<Rightarrow> nat \<Rightarrow> nat option \<Rightarrow> nat \<Rightarrow> char option \<Rightarrow> string
    \<Rightarrow> (char option \<times> string) list" where
  \<comment> \<open>\<open>n\<close> characters of the class are consumed already\<close>
  "match_rep ci P lo hi n prev [] = (if lo \<le> n then [(prev, [])] else [])"
| "match_rep ci P lo hi n prev (d # ds) =
     (if lo \<le> n then [(prev, d # ds)] else [])
     @ (if (case hi of None \<Rightarrow> True | Some h \<Rightarrow> n < h) \<and> cls_ok ci P d
        then match_rep ci P lo hi (n + 1) (Some d) ds else [])"

definition at_word_boundary :: "char option \<Rightarrow> string \<Rightarrow> bool" where
  "at_word_boundary prev rest =
     ((case prev of None \<Rightarrow> False | Some c \<Rightarrow> is_word c)
      \<noteq> (case rest of [] \<Rightarrow> False | d # ds \<Rightarrow> is_word d))"

fun rx_match :: "bool \<Rightarrow> regex \<Rightarrow> char option \<times> string \<Rightarrow> (char option \<times> string) list" where
  "rx_match ci (Lit s) p = match_lit ci s (fst p) (snd p)"
| "rx_match ci (Cls P) p =
     (case snd p of [] \<Rightarrow> [] | d # ds \<Rightarrow> if cls_ok ci P d then [(Some d, ds)] else [])"
| "rx_match ci (Rep P lo hi) p = match_rep ci P lo hi 0 (fst p) (snd p)"
| "rx_match ci (Seq a b) p = concat (map (rx_match ci b) (rx_match ci a p))"
| "rx_match ci (Alt a b) p = rx_match ci a p @ rx_match ci b p"
| "rx_match ci (Opt a) p = rx_match ci a p @ [p]"
| "rx_match ci Bol p = (if fst p = None then [p] else [])"
| "rx_match ci Eol p = (if snd p = [] \<or> snd p = [CHR 0x0A] then [p] else [])"
| "rx_match ci WordB p = (if at_word_boundary (fst p) (snd p) then [p] else [])"

fun search_from :: "bool \<Rightarrow> regex \<Rightarrow> char option \<Rightarrow> string \<Rightarrow> bool" where
  "search_from ci r prev [] = (rx_match ci r (prev, []) \<noteq> [])"
| "search_from ci r prev (d # ds) =
     (rx_match ci r (prev, d # ds) \<noteq> [] \<or> search_from ci r (Some d) ds)"

definition re_search :: "bool \<Rightarrow> regex \<Rightarrow> string \<Rightarrow> bool" where
  \<comment> \<open>\<open>re.search(pattern, s)\<close> finds a match; \<open>ci\<close> is the flag \<open>re.I\<close>\<close>
  "re_search ci r s = search_from ci r None s"



definition alts :: "string list \<Rightarrow> regex" where
  \<comment> \<open>a group of literal alternatives \<open>(a|b|...)\<close>\<close>
  "alts ws = foldr (\<lambda>w r. Alt (Lit w) r) (butlast ws) (Lit (last ws))"

section \<open>String operations\<close>


definition rstrip_chars :: "string \<Rightarrow> string \<Rightarrow> string" where
  \<comment> \<open>\<open>s.rstrip(chars)\<close>\<close>
  "rstrip_chars chars s = rev (dropWhile (\<lambda>c. c \<in> set chars) (rev s))"

section \<open>The float constructor\<close>












section \<open>Numeric locale conversion\<close>











section \<open>Facts about the numeric locale conversion\<close>







end
